theory Spec2Isabelle
  imports Complex_Main
begin

section \<open>Padel club planner: layout geometry and reservations\<close>

text \<open>
  A shallow embedding of \<^verbatim>\<open>src/App.jsx\<close>. Component state (\<^verbatim>\<open>useState\<close>) is passed
  explicitly; \<^verbatim>\<open>Date.now()\<close>, \<^verbatim>\<open>Math.random()\<close> and the parser behind
  \<^verbatim>\<open>new Date(string)\<close> are parameters of the functions that call them. JavaScript
  numbers that carry coordinates are modelled as \<^typ>\<open>real\<close> (rounding of doubles is
  not modelled), timestamps in milliseconds as \<^typ>\<open>int\<close>, and a timestamp that may
  be \<^verbatim>\<open>NaN\<close> as \<^typ>\<open>int option\<close>.
\<close>

subsection \<open>Constants\<close>

definition SCALE :: real where
  "SCALE = 15"

definition COURT_WIDTH_M :: real where
  "COURT_WIDTH_M = 10"

definition COURT_HEIGHT_M :: real where
  "COURT_HEIGHT_M = 20"

definition COURT_WIDTH_PX :: real where
  "COURT_WIDTH_PX = COURT_WIDTH_M * SCALE"

definition COURT_HEIGHT_PX :: real where
  "COURT_HEIGHT_PX = COURT_HEIGHT_M * SCALE"

definition MIN_SIZE_PX :: real where
  "MIN_SIZE_PX = 30"

subsection \<open>Layout elements\<close>

datatype elem_type = Court | Zone

datatype mode = Design | Manage | Search

text \<open>
  An element object. A court is created with \<^verbatim>\<open>color\<close> and \<^verbatim>\<open>label\<close> and without
  \<^verbatim>\<open>width\<close>/\<^verbatim>\<open>height\<close>; a zone with \<^verbatim>\<open>width\<close>/\<^verbatim>\<open>height\<close> and without
  \<^verbatim>\<open>color\<close>/\<^verbatim>\<open>label\<close>. An absent property is \<open>None\<close>.
\<close>

record element =
  el_id :: int
  el_type :: elem_type
  el_x :: real
  el_y :: real
  el_rotation :: real
  el_color :: "string option"
  el_label :: "nat option"
  el_width :: "real option"
  el_height :: "real option"

text \<open>The object literal handed to \<^verbatim>\<open>onUpdate\<close>: the properties it sets.\<close>

record changes =
  ch_x :: "real option"
  ch_y :: "real option"
  ch_width :: "real option"
  ch_height :: "real option"

text \<open>\<^verbatim>\<open>{ ...el, ...changes }\<close>\<close>

definition spread :: "element \<Rightarrow> changes \<Rightarrow> element" where
  "spread el ch =
     el\<lparr> el_x := (case ch_x ch of Some v \<Rightarrow> v | None \<Rightarrow> el_x el),
         el_y := (case ch_y ch of Some v \<Rightarrow> v | None \<Rightarrow> el_y el),
         el_width := (case ch_width ch of Some v \<Rightarrow> Some v | None \<Rightarrow> el_width el),
         el_height := (case ch_height ch of Some v \<Rightarrow> Some v | None \<Rightarrow> el_height el) \<rparr>"

text \<open>\<^verbatim>\<open>setElements(prev => prev.map(el => el.id === id ? { ...el, ...changes } : el))\<close>\<close>

definition updateElement :: "int \<Rightarrow> changes \<Rightarrow> element list \<Rightarrow> element list" where
  "updateElement i ch prev = map (\<lambda>el. if el_id el = i then spread el ch else el) prev"

subsection \<open>Pointer gestures\<close>

text \<open>
  \<^verbatim>\<open>PadelCourt.handleDragStart\<close> and \<^verbatim>\<open>GenericZone.handleDragStart\<close>: outside design
  mode the handler returns before it registers a listener (\<open>None\<close>). Otherwise every
  \<^verbatim>\<open>pointermove\<close> calls \<^verbatim>\<open>onUpdate(data.id, ...)\<close> with the object computed here from
  the snapshot \<^verbatim>\<open>data\<close> taken at pointer-down, the pointer-down position
  \<open>(startX, startY)\<close> and the event's \<open>(clientX, clientY)\<close>. The handler also selects the
  element; the selection plays no part in what follows and is left out here.
\<close>

definition PadelCourt_handleDragStart ::
  "mode \<Rightarrow> real \<Rightarrow> element \<Rightarrow> real \<times> real \<Rightarrow> real \<times> real \<Rightarrow> changes option" where
  "PadelCourt_handleDragStart m zoom data start ev =
     (if m \<noteq> Design then None
      else
        let startX = fst start; startY = snd start;
            initialPos = (el_x data, el_y data);
            dx = (fst ev - startX) / zoom;
            dy = (snd ev - startY) / zoom
        in Some \<lparr> ch_x = Some (fst initialPos + dx), ch_y = Some (snd initialPos + dy),
                  ch_width = None, ch_height = None \<rparr>)"

definition GenericZone_handleDragStart ::
  "mode \<Rightarrow> real \<Rightarrow> element \<Rightarrow> real \<times> real \<Rightarrow> real \<times> real \<Rightarrow> changes option" where
  "GenericZone_handleDragStart m zoom data start ev =
     (if m \<noteq> Design then None
      else
        let startX = fst start; startY = snd start;
            initialPos = (el_x data, el_y data);
            dx = (fst ev - startX) / zoom;
            dy = (snd ev - startY) / zoom
        in Some \<lparr> ch_x = Some (fst initialPos + dx), ch_y = Some (snd initialPos + dy),
                  ch_width = None, ch_height = None \<rparr>)"

text \<open>\<^verbatim>\<open>direction.includes('e')\<close> with a one-character argument.\<close>

definition str_includes :: "string \<Rightarrow> char \<Rightarrow> bool" where
  "str_includes direction c = (c \<in> set direction)"

text \<open>
  \<^verbatim>\<open>GenericZone.handleResizeStart\<close> with its \<^verbatim>\<open>onPointerMove\<close>. The component is
  rendered for zones only, whose objects carry \<^verbatim>\<open>width\<close> and \<^verbatim>\<open>height\<close>; on an object
  without them the JavaScript would compute \<^verbatim>\<open>NaN\<close>, which is \<open>None\<close> here.
\<close>

definition handleResizeStart ::
  "real \<Rightarrow> element \<Rightarrow> string \<Rightarrow> real \<times> real \<Rightarrow> real \<times> real \<Rightarrow> changes option" where
  "handleResizeStart zoom data direction start ev =
     (case (el_width data, el_height data) of
        (Some startW, Some startH) \<Rightarrow>
          let startX = fst start; startY = snd start;
              startXPos = el_x data; startYPos = el_y data;
              angleRad = (el_rotation data * pi) / 180;
              ux = cos angleRad; uy = sin angleRad;
              vx = - sin angleRad; vy = cos angleRad;
              dx = (fst ev - startX) / zoom;
              dy = (snd ev - startY) / zoom;
              localDx = dx * ux + dy * uy;
              localDy = dx * vx + dy * vy;
              newW = (if str_includes direction CHR ''e'' then max MIN_SIZE_PX (startW + localDx)
                      else if str_includes direction CHR ''w'' then max MIN_SIZE_PX (startW - localDx)
                      else startW);
              changeX = (if str_includes direction CHR ''e'' then (newW - startW) / 2
                         else if str_includes direction CHR ''w'' then - (newW - startW) / 2
                         else 0);
              newH = (if str_includes direction CHR ''s'' then max MIN_SIZE_PX (startH + localDy)
                      else if str_includes direction CHR ''n'' then max MIN_SIZE_PX (startH - localDy)
                      else startH);
              changeY = (if str_includes direction CHR ''s'' then (newH - startH) / 2
                         else if str_includes direction CHR ''n'' then - (newH - startH) / 2
                         else 0);
              worldShiftX = changeX * ux + changeY * vx;
              worldShiftY = changeX * uy + changeY * vy
          in Some \<lparr> ch_x = Some (startXPos + worldShiftX), ch_y = Some (startYPos + worldShiftY),
                    ch_width = Some newW, ch_height = Some newH \<rparr>
      | _ \<Rightarrow> None)"

subsection \<open>Reservations\<close>

text \<open>
  A stored reservation. \<^verbatim>\<open>start\<close> and \<^verbatim>\<open>end\<close> are written with \<^verbatim>\<open>toISOString()\<close> of a
  valid \<^verbatim>\<open>Date\<close> and read back with \<^verbatim>\<open>new Date(...).getTime()\<close>, which returns the same
  millisecond count; the model keeps that count. \<^verbatim>\<open>deposit\<close> is the text of the form's
  number field.
\<close>

record reservation =
  res_id :: int
  courtId :: int
  clientName :: string
  res_start :: int
  res_end :: int
  deposit :: string

text \<open>The state of the reservation form.\<close>

record form =
  f_name :: string
  f_date :: string
  f_startTime :: string
  f_duration :: int
  f_deposit :: string

text \<open>
  What \<^verbatim>\<open>handleSubmit\<close> does besides resetting the form: an error toast and nothing
  else (\<open>Rejected\<close>), or \<^verbatim>\<open>onSave\<close> with the new reservation followed by the success
  toast (\<open>Saved\<close>). The three error toasts are, in order, the one asking to complete
  date and time, the one for a date or time that is not valid, and the conflict toast.
\<close>

datatype toast_error = MissingDateTime | InvalidDateTime | Conflict

datatype submit_outcome = Rejected toast_error | Saved reservation

text \<open>The \<^verbatim>\<open>existingReservations.some(...)\<close> of \<^verbatim>\<open>handleSubmit\<close>.\<close>

definition hasOverlap :: "reservation list \<Rightarrow> int \<Rightarrow> int \<Rightarrow> bool" where
  "hasOverlap existingReservations nStart nEnd =
     list_ex (\<lambda>res. let rStart = res_start res; rEnd = res_end res
                     in nStart < rEnd \<and> nEnd > rStart) existingReservations"

text \<open>
  \<^verbatim>\<open>ReservationModal.handleSubmit\<close>. \<open>parseDate\<close> stands for
  \<^verbatim>\<open>new Date(s).getTime()\<close> (\<open>None\<close> for \<^verbatim>\<open>NaN\<close>), \<open>now\<close> for \<^verbatim>\<open>Date.now()\<close>.
\<close>

definition handleSubmit ::
  "(string \<Rightarrow> int option) \<Rightarrow> int \<Rightarrow> element \<Rightarrow> reservation list \<Rightarrow> form \<Rightarrow> submit_outcome" where
  "handleSubmit parseDate now court existingReservations f =
     (if f_date f = [] \<or> f_startTime f = [] then Rejected MissingDateTime
      else
        case parseDate (f_date f @ ''T'' @ f_startTime f) of
          None \<Rightarrow> Rejected InvalidDateTime
        | Some startDateTime \<Rightarrow>
            let endDateTime = startDateTime + f_duration f * 60000 in
            if hasOverlap existingReservations startDateTime endDateTime then Rejected Conflict
            else Saved \<lparr> res_id = now, courtId = el_id court, clientName = f_name f,
                         res_start = startDateTime, res_end = endDateTime,
                         deposit = (if f_deposit f = [] then ''0'' else f_deposit f) \<rparr>)"

text \<open>\<^verbatim>\<open>setReservations([...reservations, newRes])\<close>\<close>

definition handleSaveReservation :: "reservation list \<Rightarrow> reservation \<Rightarrow> reservation list" where
  "handleSaveReservation reservations newRes = reservations @ [newRes]"

text \<open>
  The modal as \<^verbatim>\<open>PadelClubPlanner\<close> wires it: \<^verbatim>\<open>existingReservations\<close> is
  \<^verbatim>\<open>reservations.filter(r => r.courtId === managingState.court.id)\<close> and \<^verbatim>\<open>onSave\<close> is
  \<^verbatim>\<open>handleSaveReservation\<close>. The result is the outcome and the reservation store after it.
\<close>

definition submitReservation ::
  "(string \<Rightarrow> int option) \<Rightarrow> int \<Rightarrow> element \<Rightarrow> form \<Rightarrow> reservation list
     \<Rightarrow> submit_outcome \<times> reservation list" where
  "submitReservation parseDate now court f reservations =
     (case handleSubmit parseDate now court
             (filter (\<lambda>r. courtId r = el_id court) reservations) f of
        Saved newRes \<Rightarrow> (Saved newRes, handleSaveReservation reservations newRes)
      | Rejected e \<Rightarrow> (Rejected e, reservations))"

subsection \<open>Availability search\<close>

text \<open>The \<^verbatim>\<open>reservations.some(...)\<close> of \<^verbatim>\<open>getAvailableCourts\<close>; a comparison with
  \<^verbatim>\<open>NaN\<close> is false.\<close>

definition hasConflict :: "reservation list \<Rightarrow> element \<Rightarrow> int option \<Rightarrow> int option \<Rightarrow> bool" where
  "hasConflict reservations court searchStart searchEnd =
     list_ex (\<lambda>res. if courtId res \<noteq> el_id court then False
                     else
                       let resStart = res_start res; resEnd = res_end res
                       in (case (searchStart, searchEnd) of
                             (Some s, Some e) \<Rightarrow> s < resEnd \<and> e > resStart
                           | _ \<Rightarrow> False)) reservations"

definition getAvailableCourts ::
  "(string \<Rightarrow> int option) \<Rightarrow> element list \<Rightarrow> reservation list \<Rightarrow> string \<Rightarrow> string \<Rightarrow> int
     \<Rightarrow> element list" where
  "getAvailableCourts parseDate elements reservations searchDate searchTime duration =
     (let courts = filter (\<lambda>el. el_type el = Court) elements in
      if searchDate = [] \<or> searchTime = [] then []
      else
        let searchStart = parseDate (searchDate @ ''T'' @ searchTime);
            searchEnd = map_option (\<lambda>s. s + duration * 60000) searchStart
        in filter (\<lambda>court. \<not> hasConflict reservations court searchStart searchEnd) courts)"

subsection \<open>The reservation form\<close>

text \<open>
  \<^verbatim>\<open><form onSubmit={handleSubmit}>\<close>. The inputs bound to \<^verbatim>\<open>name\<close>, \<^verbatim>\<open>date\<close> and
  \<^verbatim>\<open>startTime\<close> carry the attribute \<^verbatim>\<open>required\<close>: while one of them is empty the browser
  does not dispatch the submit event, so \<^verbatim>\<open>handleSubmit\<close> does not run and no toast is
  shown (\<open>Blocked\<close>). The deposit input has \<^verbatim>\<open>type="number"\<close> and neither \<^verbatim>\<open>required\<close>
  nor \<^verbatim>\<open>min\<close>.
\<close>

datatype form_outcome = Blocked | Handled submit_outcome

definition form_onSubmit ::
  "(string \<Rightarrow> int option) \<Rightarrow> int \<Rightarrow> element \<Rightarrow> form \<Rightarrow> reservation list
     \<Rightarrow> form_outcome \<times> reservation list" where
  "form_onSubmit parseDate now court f reservations =
     (if f_name f = [] \<or> f_date f = [] \<or> f_startTime f = [] then (Blocked, reservations)
      else
        let r = submitReservation parseDate now court f reservations
        in (Handled (fst r), snd r))"

text \<open>
  \<^verbatim>\<open>Number(res.deposit)\<close>, as the reservation lists call it, on the texts made of an
  optional minus sign and decimal digits; the empty text is 0 and a lone sign is
  \<^verbatim>\<open>NaN\<close>. Other texts (fractions, exponents) are outside this fragment and also \<open>None\<close>.
\<close>

definition digit :: "char \<Rightarrow> nat option" where
  "digit c = (let n = (of_char c :: nat) in if 48 \<le> n \<and> n \<le> 57 then Some (n - 48) else None)"

fun digits :: "string \<Rightarrow> nat \<Rightarrow> nat option" where
  "digits [] acc = Some acc"
| "digits (c # cs) acc = (case digit c of None \<Rightarrow> None | Some d \<Rightarrow> digits cs (10 * acc + d))"

definition Number_of :: "string \<Rightarrow> int option" where
  "Number_of s =
     (case s of
        [] \<Rightarrow> Some 0
      | c # cs \<Rightarrow>
          if c = CHR ''-'' then (if cs = [] then None else map_option (\<lambda>n. - int n) (digits cs 0))
          else map_option int (digits s 0))"

subsection \<open>The layout store\<close>

text \<open>
  \<^verbatim>\<open>addCourt\<close> and \<^verbatim>\<open>addZone\<close>. \<open>containerSize\<close> is the measured \<open>(w, h)\<close>, \<open>now\<close> is
  \<^verbatim>\<open>Date.now()\<close>, \<open>rnd\<close> the two results of \<^verbatim>\<open>Math.random()\<close>.
\<close>

definition addCourt ::
  "real \<times> real \<Rightarrow> int \<Rightarrow> real \<times> real \<Rightarrow> string \<Rightarrow> element list \<Rightarrow> element list" where
  "addCourt containerSize now rnd color elements =
     (let newCourt =
            \<lparr> el_id = now, el_type = Court,
              el_x = fst containerSize / 2 - COURT_WIDTH_PX / 2 + (fst rnd * 40 - 20),
              el_y = snd containerSize / 2 - COURT_HEIGHT_PX / 2 + (snd rnd * 40 - 20),
              el_rotation = 0, el_color = Some color,
              el_label = Some (length (filter (\<lambda>e. el_type e = Court) elements) + 1),
              el_width = None, el_height = None \<rparr>
      in elements @ [newCourt])"

definition addZone :: "real \<times> real \<Rightarrow> int \<Rightarrow> element list \<Rightarrow> element list" where
  "addZone containerSize now elements =
     (let newZone =
            \<lparr> el_id = now, el_type = Zone,
              el_x = fst containerSize / 2 - 50,
              el_y = snd containerSize / 2 - 25,
              el_rotation = 0, el_color = None, el_label = None,
              el_width = Some (10 * SCALE), el_height = Some (5 * SCALE) \<rparr>
      in elements @ [newZone])"

definition rotateElement :: "int \<Rightarrow> element list \<Rightarrow> element list" where
  "rotateElement i prev =
     map (\<lambda>el. if el_id el = i then el\<lparr> el_rotation := (if el_rotation el = 0 then 90 else 0) \<rparr>
                else el) prev"

text \<open>The list part of \<^verbatim>\<open>deleteElement\<close>; the selection it clears is in \<open>step\<close> below.\<close>

definition deleteElement :: "int \<Rightarrow> element list \<Rightarrow> element list" where
  "deleteElement i prev = filter (\<lambda>el. el_id el \<noteq> i) prev"

text \<open>The confirmed branch of \<^verbatim>\<open>handleDeleteReservation\<close>.\<close>

definition deleteReservation :: "int \<Rightarrow> reservation list \<Rightarrow> reservation list" where
  "deleteReservation resId prev = filter (\<lambda>r. res_id r \<noteq> resId) prev"

subsection \<open>The application state and its events\<close>

record app_state =
  elements :: "element list"
  reservations :: "reservation list"
  selectedId :: "int option"
  containerSize :: "real \<times> real"

text \<open>
  The handlers of \<^verbatim>\<open>PadelClubPlanner\<close> that change the two stores, each with the
  values it reads from outside the state: the clock, the random numbers, the colour of
  the toolbar button, the court whose modal is open and the form's fields.
\<close>

datatype event =
    AddCourt int "real \<times> real" string
  | AddZone int
  | UpdateElement int changes
  | RotateElement int
  | DeleteElement int
  | ClearElements
  | SubmitForm int element form
  | DeleteReservation int

fun step :: "(string \<Rightarrow> int option) \<Rightarrow> event \<Rightarrow> app_state \<Rightarrow> app_state" where
  "step parseDate (AddCourt now rnd color) s =
     s\<lparr> elements := addCourt (containerSize s) now rnd color (elements s) \<rparr>"
| "step parseDate (AddZone now) s =
     s\<lparr> elements := addZone (containerSize s) now (elements s) \<rparr>"
| "step parseDate (UpdateElement i ch) s =
     s\<lparr> elements := updateElement i ch (elements s) \<rparr>"
| "step parseDate (RotateElement i) s =
     s\<lparr> elements := rotateElement i (elements s) \<rparr>"
| "step parseDate (DeleteElement i) s =
     s\<lparr> elements := deleteElement i (elements s), selectedId := None \<rparr>"
| "step parseDate ClearElements s = s\<lparr> elements := [] \<rparr>"
| "step parseDate (SubmitForm now court f) s =
     s\<lparr> reservations := snd (form_onSubmit parseDate now court f (reservations s)) \<rparr>"
| "step parseDate (DeleteReservation resId) s =
     s\<lparr> reservations := deleteReservation resId (reservations s) \<rparr>"

fun run :: "(string \<Rightarrow> int option) \<Rightarrow> event list \<Rightarrow> app_state \<Rightarrow> app_state" where
  "run parseDate [] s = s"
| "run parseDate (e # es) s = run parseDate es (step parseDate e s)"

text \<open>The state after mounting: both stores empty, nothing selected.\<close>

definition initial :: "real \<times> real \<Rightarrow> app_state" where
  "initial size0 = \<lparr> elements = [], reservations = [], selectedId = None, containerSize = size0 \<rparr>"

text \<open>
  The clock values that an event list makes the program read. \<^verbatim>\<open>addCourt\<close> and \<^verbatim>\<open>addZone\<close>
  read \<^verbatim>\<open>Date.now()\<close> on every call. \<^verbatim>\<open>handleSubmit\<close> reads it only inside the object it
  hands to \<^verbatim>\<open>onSave\<close>: a submission that the browser blocks, or that ends in an error
  toast, reads no clock. Which submissions save depends on the store, so the second
  function follows the run from the state it starts in.
\<close>

fun element_stamps :: "event list \<Rightarrow> int list" where
  "element_stamps [] = []"
| "element_stamps (AddCourt now rnd color # es) = now # element_stamps es"
| "element_stamps (AddZone now # es) = now # element_stamps es"
| "element_stamps (e # es) = element_stamps es"

fun reservation_stamps :: "(string \<Rightarrow> int option) \<Rightarrow> event list \<Rightarrow> app_state \<Rightarrow> int list" where
  "reservation_stamps parseDate [] s = []"
| "reservation_stamps parseDate (SubmitForm now court f # es) s =
     (case fst (form_onSubmit parseDate now court f (reservations s)) of
        Handled (Saved r) \<Rightarrow>
          now # reservation_stamps parseDate es (step parseDate (SubmitForm now court f) s)
      | _ \<Rightarrow> reservation_stamps parseDate es (step parseDate (SubmitForm now court f) s))"
| "reservation_stamps parseDate (e # es) s =
     reservation_stamps parseDate es (step parseDate e s)"

subsection \<open>Where an element is drawn\<close>

text \<open>
  Both components render one \<^verbatim>\<open>motion.div\<close> with the classes \<^verbatim>\<open>absolute top-0 left-0\<close>,
  animated to \<^verbatim>\<open>x: data.x, y: data.y, rotate: data.rotation\<close>; a court has the fixed
  style size \<^verbatim>\<open>COURT_WIDTH_PX\<close> by \<^verbatim>\<open>COURT_HEIGHT_PX\<close>, a zone is animated to
  \<^verbatim>\<open>width: data.width, height: data.height\<close>. The box therefore has its unrotated
  top-left corner at \<open>(x, y)\<close> and is turned about its own centre, which is how
  \<^verbatim>\<open>addCourt\<close> places a new court in the middle of the container (half the container
  minus half the court).
\<close>

definition boxSize :: "element \<Rightarrow> (real \<times> real) option" where
  "boxSize el =
     (case el_type el of
        Court \<Rightarrow> Some (COURT_WIDTH_PX, COURT_HEIGHT_PX)
      | Zone \<Rightarrow> (case (el_width el, el_height el) of
                   (Some w, Some h) \<Rightarrow> Some (w, h)
                 | _ \<Rightarrow> None))"

definition boxCentre :: "element \<Rightarrow> (real \<times> real) option" where
  "boxCentre el =
     (case boxSize el of
        None \<Rightarrow> None
      | Some (w, h) \<Rightarrow> Some (el_x el + w / 2, el_y el + h / 2))"

text \<open>
  The midpoint of one side of the drawn box: the centre plus or minus half the width
  along \<open>u = (cos t, sin t)\<close>, or half the height along \<open>v = (- sin t, cos t)\<close>, for the
  rotation \<open>t\<close>. The sides are named after the resize handles that sit on them.
\<close>

datatype side = East | West | South | North

definition edgeMid :: "side \<Rightarrow> element \<Rightarrow> (real \<times> real) option" where
  "edgeMid sd el =
     (case boxSize el of
        None \<Rightarrow> None
      | Some (w, h) \<Rightarrow>
          let t = (el_rotation el * pi) / 180;
              cx = el_x el + w / 2; cy = el_y el + h / 2
          in Some (case sd of
                East \<Rightarrow> (cx + (w / 2) * cos t, cy + (w / 2) * sin t)
              | West \<Rightarrow> (cx - (w / 2) * cos t, cy - (w / 2) * sin t)
              | South \<Rightarrow> (cx - (h / 2) * sin t, cy + (h / 2) * cos t)
              | North \<Rightarrow> (cx + (h / 2) * sin t, cy - (h / 2) * cos t)))"

text \<open>A time of day in milliseconds, for writing examples such as 10:59.\<close>

definition clock :: "int \<Rightarrow> int \<Rightarrow> int" where
  "clock h m = (h * 60 + m) * 60000"

section \<open>Theorems\<close>

subsection \<open>The overlap predicate\<close>

lemma hasOverlap_iff:
  "hasOverlap rs s e \<longleftrightarrow> (\<exists>r\<in>set rs. s < res_end r \<and> e > res_start r)"
  by (simp add: hasOverlap_def list_ex_iff)

lemma hasConflict_iff:
  "hasConflict rs c (Some s) (Some e)
     \<longleftrightarrow> (\<exists>r\<in>set rs. courtId r = el_id c \<and> s < res_end r \<and> e > res_start r)"
  by (auto simp: hasConflict_def list_ex_iff)

text \<open>
  C1. The test that \<^verbatim>\<open>handleSubmit\<close> applies to a new interval \<open>[s1, e1)\<close> and an existing
  reservation \<open>[s2, e2)\<close>, and the test that \<^verbatim>\<open>getAvailableCourts\<close> applies to the search
  interval and a reservation of the court, both hold iff \<open>s1 < e2\<close> and \<open>e1 > s2\<close>. Touching
  intervals do not overlap: with A = [10:00, 11:00) and B = [11:00, 12:00) the test is
  false in both orders, and with B' = [10:59, 11:30) it is true.
\<close>

theorem C1_overlap_predicate:
  "(hasOverlap [r\<lparr>res_start := s2, res_end := e2\<rparr>] s1 e1 \<longleftrightarrow> s1 < e2 \<and> e1 > s2)
   \<and> (hasConflict [r\<lparr>courtId := el_id c, res_start := s2, res_end := e2\<rparr>] c (Some s1) (Some e1)
        \<longleftrightarrow> s1 < e2 \<and> e1 > s2)
   \<and> \<not> hasOverlap [r\<lparr>res_start := e1, res_end := e2\<rparr>] s1 e1
   \<and> \<not> hasConflict [r\<lparr>courtId := el_id c, res_start := e1, res_end := e2\<rparr>] c (Some s1) (Some e1)
   \<and> \<not> hasOverlap [r\<lparr>res_start := clock 11 0, res_end := clock 12 0\<rparr>] (clock 10 0) (clock 11 0)
   \<and> \<not> hasOverlap [r\<lparr>res_start := clock 10 0, res_end := clock 11 0\<rparr>] (clock 11 0) (clock 12 0)
   \<and> hasOverlap [r\<lparr>res_start := clock 10 59, res_end := clock 11 30\<rparr>] (clock 10 0) (clock 11 0)
   \<and> \<not> hasConflict [r\<lparr>courtId := el_id c, res_start := clock 11 0, res_end := clock 12 0\<rparr>] c
          (Some (clock 10 0)) (Some (clock 11 0))
   \<and> hasConflict [r\<lparr>courtId := el_id c, res_start := clock 10 59, res_end := clock 11 30\<rparr>] c
          (Some (clock 10 0)) (Some (clock 11 0))"
  by (simp add: hasOverlap_iff hasConflict_iff clock_def)

subsection \<open>Creating a reservation\<close>

lemma handleSubmit_Saved:
  assumes "handleSubmit parseDate now court existing f = Saved r"
  shows "res_id r = now \<and> courtId r = el_id court \<and> clientName r = f_name f
       \<and> deposit r = (if f_deposit f = [] then ''0'' else f_deposit f)"
  using assms
  by (auto simp: handleSubmit_def Let_def split: if_splits option.splits)

lemma submitReservation_cases:
  "(\<exists>e. submitReservation parseDate now court f rs = (Rejected e, rs))
   \<or> (\<exists>r. submitReservation parseDate now court f rs = (Saved r, rs @ [r])
          \<and> handleSubmit parseDate now court (filter (\<lambda>r. courtId r = el_id court) rs) f = Saved r)"
  by (cases "handleSubmit parseDate now court (filter (\<lambda>r. courtId r = el_id court) rs) f")
     (simp_all add: submitReservation_def handleSaveReservation_def)

text \<open>
  C2. With date and time filled in and parsed to \<open>s\<close>, submitting the form for a court
  is rejected with the conflict toast, the reservation store unchanged, exactly when a
  stored reservation of that court overlaps \<open>[s, s + duration)\<close>; otherwise the submission
  succeeds and the store gains exactly the new reservation, appended at the end. A
  reservation that only shares an end point with the new interval does not overlap it.
\<close>

theorem C2_conflict_check:
  assumes "f_date f \<noteq> []" and "f_startTime f \<noteq> []"
    and "parseDate (f_date f @ ''T'' @ f_startTime f) = Some s"
  shows "submitReservation parseDate now court f rs =
     (if \<exists>r\<in>set rs. courtId r = el_id court
            \<and> s < res_end r \<and> s + f_duration f * 60000 > res_start r
      then (Rejected Conflict, rs)
      else (let newRes = \<lparr> res_id = now, courtId = el_id court, clientName = f_name f,
                            res_start = s, res_end = s + f_duration f * 60000,
                            deposit = (if f_deposit f = [] then ''0'' else f_deposit f) \<rparr>
            in (Saved newRes, rs @ [newRes])))"
  using assms
  by (auto simp: submitReservation_def handleSubmit_def hasOverlap_iff handleSaveReservation_def Let_def)

theorem C2_conflict_check_witness:
  "(let court = \<lparr> el_id = 7, el_type = Court, el_x = 0, el_y = 0, el_rotation = 0,
                   el_color = Some ''#2563EB'', el_label = Some 1, el_width = None, el_height = None \<rparr>;
        existing = \<lparr> res_id = 1, courtId = 7, clientName = ''Ana'', res_start = clock 10 0,
                      res_end = clock 11 0, deposit = ''0'' \<rparr>;
        f = \<lparr> f_name = ''Luis'', f_date = ''2024-05-01'', f_startTime = ''11:00'',
               f_duration = 60, f_deposit = [] \<rparr>
    in submitReservation (\<lambda>t. if t = ''2024-05-01T11:00'' then Some (clock 11 0)
                               else if t = ''2024-05-01T10:00'' then Some (clock 10 0) else None)
         2 court f [existing]
       = (Saved \<lparr> res_id = 2, courtId = 7, clientName = ''Luis'', res_start = clock 11 0,
                   res_end = clock 12 0, deposit = ''0'' \<rparr>,
          [existing, \<lparr> res_id = 2, courtId = 7, clientName = ''Luis'', res_start = clock 11 0,
                   res_end = clock 12 0, deposit = ''0'' \<rparr>])
     \<and> submitReservation (\<lambda>t. if t = ''2024-05-01T11:00'' then Some (clock 11 0)
                               else if t = ''2024-05-01T10:00'' then Some (clock 10 0) else None)
         2 court (f\<lparr> f_startTime := ''10:00'' \<rparr>) [existing]
       = (Rejected Conflict, [existing]))"
  using C2_conflict_check [of "\<lparr> f_name = ''Luis'', f_date = ''2024-05-01'', f_startTime = ''11:00'',
               f_duration = 60, f_deposit = [] \<rparr>"
        "\<lambda>t. if t = ''2024-05-01T11:00'' then Some (clock 11 0)
                               else if t = ''2024-05-01T10:00'' then Some (clock 10 0) else None"
        "clock 11 0" 2
        "\<lparr> el_id = 7, el_type = Court, el_x = 0, el_y = 0, el_rotation = 0,
                   el_color = Some ''#2563EB'', el_label = Some 1, el_width = None, el_height = None \<rparr>"
        "[\<lparr> res_id = 1, courtId = 7, clientName = ''Ana'', res_start = clock 10 0,
                      res_end = clock 11 0, deposit = ''0'' \<rparr>]"]
    C2_conflict_check [of "\<lparr> f_name = ''Luis'', f_date = ''2024-05-01'', f_startTime = ''10:00'',
               f_duration = 60, f_deposit = [] \<rparr>"
        "\<lambda>t. if t = ''2024-05-01T11:00'' then Some (clock 11 0)
                               else if t = ''2024-05-01T10:00'' then Some (clock 10 0) else None"
        "clock 10 0" 2
        "\<lparr> el_id = 7, el_type = Court, el_x = 0, el_y = 0, el_rotation = 0,
                   el_color = Some ''#2563EB'', el_label = Some 1, el_width = None, el_height = None \<rparr>"
        "[\<lparr> res_id = 1, courtId = 7, clientName = ''Ana'', res_start = clock 10 0,
                      res_end = clock 11 0, deposit = ''0'' \<rparr>]"]
  by (simp add: clock_def Let_def)

subsection \<open>Availability\<close>

text \<open>
  C6. With search date and time filled in and parsed to \<open>start\<close>, \<^verbatim>\<open>getAvailableCourts\<close>
  returns the elements of type court that have no reservation overlapping
  \<open>[start, start + duration)\<close> under the same half-open test as the conflict check, in
  the order of the element list and with nothing else done to them. A court reserved
  14:00 to 15:30 is left out for 14:30 to 15:00 and returned for 15:30 to 16:00.
\<close>

theorem C6_availability:
  assumes "searchDate \<noteq> []" and "searchTime \<noteq> []"
    and "parseDate (searchDate @ ''T'' @ searchTime) = Some start"
  shows "getAvailableCourts parseDate els rs searchDate searchTime duration =
     filter (\<lambda>el. el_type el = Court
               \<and> \<not> (\<exists>r\<in>set rs. courtId r = el_id el
                        \<and> start < res_end r \<and> start + duration * 60000 > res_start r)) els"
  using assms
  by (simp add: getAvailableCourts_def hasConflict_iff Let_def)

theorem C6_availability_witness:
  "(let p = (\<lambda>t. if t = ''2024-05-01T14:30'' then Some (clock 14 30)
                  else if t = ''2024-05-01T15:30'' then Some (clock 15 30) else None);
        c1 = \<lparr> el_id = 7, el_type = Court, el_x = 0, el_y = 0, el_rotation = 0,
                el_color = Some ''#2563EB'', el_label = Some 1, el_width = None, el_height = None \<rparr>;
        z = \<lparr> el_id = 8, el_type = Zone, el_x = 0, el_y = 0, el_rotation = 0,
               el_color = None, el_label = None, el_width = Some 150, el_height = Some 75 \<rparr>;
        c2 = \<lparr> el_id = 9, el_type = Court, el_x = 200, el_y = 0, el_rotation = 90,
                el_color = Some ''#10B981'', el_label = Some 2, el_width = None, el_height = None \<rparr>;
        r = \<lparr> res_id = 1, courtId = 7, clientName = ''Ana'', res_start = clock 14 0,
               res_end = clock 15 30, deposit = ''0'' \<rparr>
    in ''2024-05-01'' \<noteq> [] \<and> ''14:30'' \<noteq> [] \<and> p (''2024-05-01'' @ ''T'' @ ''14:30'') = Some (clock 14 30)
       \<and> getAvailableCourts p [c1, z, c2] [r] ''2024-05-01'' ''14:30'' 30 = [c2]
       \<and> getAvailableCourts p [c1, z, c2] [r] ''2024-05-01'' ''15:30'' 30 = [c1, c2])"
  using C6_availability [of "''2024-05-01''" "''14:30''"
      "\<lambda>t. if t = ''2024-05-01T14:30'' then Some (clock 14 30)
           else if t = ''2024-05-01T15:30'' then Some (clock 15 30) else None"
      "clock 14 30"
      "[\<lparr> el_id = 7, el_type = Court, el_x = 0, el_y = 0, el_rotation = 0,
                el_color = Some ''#2563EB'', el_label = Some 1, el_width = None, el_height = None \<rparr>,
        \<lparr> el_id = 8, el_type = Zone, el_x = 0, el_y = 0, el_rotation = 0,
               el_color = None, el_label = None, el_width = Some 150, el_height = Some 75 \<rparr>,
        \<lparr> el_id = 9, el_type = Court, el_x = 200, el_y = 0, el_rotation = 90,
                el_color = Some ''#10B981'', el_label = Some 2, el_width = None, el_height = None \<rparr>]"
      "[\<lparr> res_id = 1, courtId = 7, clientName = ''Ana'', res_start = clock 14 0,
               res_end = clock 15 30, deposit = ''0'' \<rparr>]" 30]
    C6_availability [of "''2024-05-01''" "''15:30''"
      "\<lambda>t. if t = ''2024-05-01T14:30'' then Some (clock 14 30)
           else if t = ''2024-05-01T15:30'' then Some (clock 15 30) else None"
      "clock 15 30"
      "[\<lparr> el_id = 7, el_type = Court, el_x = 0, el_y = 0, el_rotation = 0,
                el_color = Some ''#2563EB'', el_label = Some 1, el_width = None, el_height = None \<rparr>,
        \<lparr> el_id = 8, el_type = Zone, el_x = 0, el_y = 0, el_rotation = 0,
               el_color = None, el_label = None, el_width = Some 150, el_height = Some 75 \<rparr>,
        \<lparr> el_id = 9, el_type = Court, el_x = 200, el_y = 0, el_rotation = 90,
                el_color = Some ''#10B981'', el_label = Some 2, el_width = None, el_height = None \<rparr>]"
      "[\<lparr> res_id = 1, courtId = 7, clientName = ''Ana'', res_start = clock 14 0,
               res_end = clock 15 30, deposit = ''0'' \<rparr>]" 30]
  by (simp add: Let_def clock_def)

subsection \<open>Moving an element\<close>

lemma drag_court_changes:
  "PadelCourt_handleDragStart Design zoom data (sx, sy) (sx + dxScreen, sy + dyScreen) =
     Some \<lparr> ch_x = Some (el_x data + dxScreen / zoom), ch_y = Some (el_y data + dyScreen / zoom),
            ch_width = None, ch_height = None \<rparr>"
  by (simp add: PadelCourt_handleDragStart_def Let_def)

lemma drag_zone_changes:
  "GenericZone_handleDragStart Design zoom data (sx, sy) (sx + dxScreen, sy + dyScreen) =
     Some \<lparr> ch_x = Some (el_x data + dxScreen / zoom), ch_y = Some (el_y data + dyScreen / zoom),
            ch_width = None, ch_height = None \<rparr>"
  by (simp add: GenericZone_handleDragStart_def Let_def)

lemma spread_move:
  "spread el \<lparr> ch_x = Some a, ch_y = Some b, ch_width = None, ch_height = None \<rparr>
     = el\<lparr> el_x := a, el_y := b \<rparr>"
  by (simp add: spread_def)

lemma boxCentre_move:
  "boxCentre (el\<lparr> el_x := el_x el + a, el_y := el_y el + b \<rparr>)
     = map_option (\<lambda>c. (fst c + a, snd c + b)) (boxCentre el)"
  by (simp add: boxCentre_def boxSize_def split: elem_type.splits option.splits)

text \<open>
  C5. In design mode and with a positive zoom, a pointer displacement
  \<open>(dxScreen, dyScreen)\<close> from the pointer-down position makes the drag handler of a
  court and of a zone set the position to \<open>(x0 + dxScreen / zoom, y0 + dyScreen / zoom)\<close>,
  where \<open>(x0, y0)\<close> is the position at pointer-down. The rotation has no part in it,
  nothing but the position changes, and the centre of the drawn box is translated by the
  same vector. At zoom 2 the displacement is half of what it is at zoom 1.
\<close>

theorem C5_move:
  assumes "zoom > 0"
  shows "PadelCourt_handleDragStart Design zoom data (sx, sy) (sx + dxScreen, sy + dyScreen)
           = Some \<lparr> ch_x = Some (el_x data + dxScreen / zoom),
                    ch_y = Some (el_y data + dyScreen / zoom),
                    ch_width = None, ch_height = None \<rparr>
       \<and> GenericZone_handleDragStart Design zoom data (sx, sy) (sx + dxScreen, sy + dyScreen)
           = Some \<lparr> ch_x = Some (el_x data + dxScreen / zoom),
                    ch_y = Some (el_y data + dyScreen / zoom),
                    ch_width = None, ch_height = None \<rparr>
       \<and> PadelCourt_handleDragStart Design zoom (data\<lparr> el_rotation := t \<rparr>) (sx, sy)
             (sx + dxScreen, sy + dyScreen)
           = PadelCourt_handleDragStart Design zoom data (sx, sy) (sx + dxScreen, sy + dyScreen)
       \<and> GenericZone_handleDragStart Design zoom (data\<lparr> el_rotation := t \<rparr>) (sx, sy)
             (sx + dxScreen, sy + dyScreen)
           = GenericZone_handleDragStart Design zoom data (sx, sy) (sx + dxScreen, sy + dyScreen)
       \<and> updateElement (el_id data)
             \<lparr> ch_x = Some (el_x data + dxScreen / zoom), ch_y = Some (el_y data + dyScreen / zoom),
               ch_width = None, ch_height = None \<rparr> [data]
           = [data\<lparr> el_x := el_x data + dxScreen / zoom, el_y := el_y data + dyScreen / zoom \<rparr>]
       \<and> boxCentre (data\<lparr> el_x := el_x data + dxScreen / zoom, el_y := el_y data + dyScreen / zoom \<rparr>)
           = map_option (\<lambda>c. (fst c + dxScreen / zoom, snd c + dyScreen / zoom)) (boxCentre data)
       \<and> PadelCourt_handleDragStart Design 2 data (sx, sy) (sx + dxScreen, sy + dyScreen)
           = Some \<lparr> ch_x = Some (el_x data + dxScreen / 2), ch_y = Some (el_y data + dyScreen / 2),
                    ch_width = None, ch_height = None \<rparr>
       \<and> PadelCourt_handleDragStart Design 1 data (sx, sy) (sx + dxScreen, sy + dyScreen)
           = Some \<lparr> ch_x = Some (el_x data + dxScreen), ch_y = Some (el_y data + dyScreen),
                    ch_width = None, ch_height = None \<rparr>
       \<and> GenericZone_handleDragStart Design 2 data (sx, sy) (sx + dxScreen, sy + dyScreen)
           = Some \<lparr> ch_x = Some (el_x data + dxScreen / 2), ch_y = Some (el_y data + dyScreen / 2),
                    ch_width = None, ch_height = None \<rparr>
       \<and> GenericZone_handleDragStart Design 1 data (sx, sy) (sx + dxScreen, sy + dyScreen)
           = Some \<lparr> ch_x = Some (el_x data + dxScreen), ch_y = Some (el_y data + dyScreen),
                    ch_width = None, ch_height = None \<rparr>"
proof -
  have rot: "el_x (data\<lparr> el_rotation := t \<rparr>) = el_x data" "el_y (data\<lparr> el_rotation := t \<rparr>) = el_y data"
    by simp_all
  show ?thesis
    using drag_court_changes [of _ data] drag_zone_changes [of _ data]
      drag_court_changes [of zoom "data\<lparr> el_rotation := t \<rparr>" sx sy dxScreen dyScreen]
      drag_zone_changes [of zoom "data\<lparr> el_rotation := t \<rparr>" sx sy dxScreen dyScreen]
    by (simp add: updateElement_def spread_move boxCentre_move)
qed

theorem C5_move_witness:
  "(let z = \<lparr> el_id = 3, el_type = Zone, el_x = 100, el_y = 50, el_rotation = 90,
               el_color = None, el_label = None, el_width = Some 150, el_height = Some 75 \<rparr>
    in (0::real) < 2
       \<and> GenericZone_handleDragStart Design 2 z (10, 10) (10 + 40, 10 + 30)
           = Some \<lparr> ch_x = Some 120, ch_y = Some 65, ch_width = None, ch_height = None \<rparr>
       \<and> boxCentre (z\<lparr> el_x := 120, el_y := 65 \<rparr>) = Some (195, 102.5)
       \<and> boxCentre z = Some (175, 87.5))"
  using C5_move [of 2 "\<lparr> el_id = 3, el_type = Zone, el_x = 100, el_y = 50, el_rotation = 90,
               el_color = None, el_label = None, el_width = Some 150, el_height = Some 75 \<rparr>"
               10 10 40 30 0]
  by (simp add: Let_def boxCentre_def boxSize_def)

subsection \<open>Resizing a zone\<close>

text \<open>
  What the handler computes, for every handle, rotation and displacement: sizes that do
  not fall below \<^const>\<open>MIN_SIZE_PX\<close>, the clamp met exactly, and a shift of \<open>(x, y)\<close> by half
  the clamped change of size along the body axes.
\<close>

lemma resize_min_size:
  assumes "el_width data = Some w" and "el_height data = Some h"
    and "MIN_SIZE_PX \<le> w" and "MIN_SIZE_PX \<le> h"
  shows "\<exists>x' y' w' h'. handleResizeStart zoom data direction start ev =
            Some \<lparr> ch_x = Some x', ch_y = Some y', ch_width = Some w', ch_height = Some h' \<rparr>
          \<and> MIN_SIZE_PX \<le> w' \<and> MIN_SIZE_PX \<le> h'"
  using assms by (simp add: handleResizeStart_def Let_def)

lemma resize_west_formula:
  assumes "el_width data = Some w" and "el_height data = Some h"
  shows "handleResizeStart zoom data ''w'' (sx, sy) (sx + dxScreen, sy + dyScreen) =
     (let t = (el_rotation data * pi) / 180;
          localDx = (dxScreen / zoom) * cos t + (dyScreen / zoom) * sin t;
          newW = max MIN_SIZE_PX (w - localDx)
      in Some \<lparr> ch_x = Some (el_x data - (newW - w) / 2 * cos t),
                ch_y = Some (el_y data - (newW - w) / 2 * sin t),
                ch_width = Some newW, ch_height = Some h \<rparr>)"
  using assms
  by (simp add: handleResizeStart_def Let_def str_includes_def) (simp add: left_diff_distrib)

lemma resize_west_clamped:
  assumes "el_width data = Some w" and "el_height data = Some h"
    and "w - ((dxScreen / zoom) * cos ((el_rotation data * pi) / 180)
              + (dyScreen / zoom) * sin ((el_rotation data * pi) / 180)) \<le> MIN_SIZE_PX"
  shows "handleResizeStart zoom data ''w'' (sx, sy) (sx + dxScreen, sy + dyScreen) =
      Some \<lparr> ch_x = Some (el_x data - (MIN_SIZE_PX - w) / 2 * cos ((el_rotation data * pi) / 180)),
             ch_y = Some (el_y data - (MIN_SIZE_PX - w) / 2 * sin ((el_rotation data * pi) / 180)),
             ch_width = Some MIN_SIZE_PX, ch_height = Some h \<rparr>"
  using assms by (simp add: resize_west_formula Let_def max_def)

lemma resize_about_position:
  assumes "el_width data = Some w" and "el_height data = Some h"
    and "handleResizeStart zoom data direction start ev =
           Some \<lparr> ch_x = Some x', ch_y = Some y', ch_width = Some w', ch_height = Some h' \<rparr>"
    and "t = el_rotation data * pi / 180"
  shows "(str_includes direction CHR ''e'' \<longrightarrow>
            (x' * cos t + y' * sin t) - w' / 2 = (el_x data * cos t + el_y data * sin t) - w / 2)
       \<and> (\<not> str_includes direction CHR ''e'' \<and> str_includes direction CHR ''w'' \<longrightarrow>
            (x' * cos t + y' * sin t) + w' / 2 = (el_x data * cos t + el_y data * sin t) + w / 2)
       \<and> (str_includes direction CHR ''s'' \<longrightarrow>
            (y' * cos t - x' * sin t) - h' / 2 = (el_y data * cos t - el_x data * sin t) - h / 2)
       \<and> (\<not> str_includes direction CHR ''s'' \<and> str_includes direction CHR ''n'' \<longrightarrow>
            (y' * cos t - x' * sin t) + h' / 2 = (el_y data * cos t - el_x data * sin t) + h / 2)"
proof -
  define dx where "dx = (fst ev - fst start) / zoom"
  define dy where "dy = (snd ev - snd start) / zoom"
  define newW where "newW =
     (if str_includes direction CHR ''e'' then max MIN_SIZE_PX (w + (dx * cos t + dy * sin t))
      else if str_includes direction CHR ''w'' then max MIN_SIZE_PX (w - (dx * cos t + dy * sin t))
      else w)"
  define newH where "newH =
     (if str_includes direction CHR ''s'' then max MIN_SIZE_PX (h + (dx * (- sin t) + dy * cos t))
      else if str_includes direction CHR ''n'' then max MIN_SIZE_PX (h - (dx * (- sin t) + dy * cos t))
      else h)"
  define cX where "cX =
     (if str_includes direction CHR ''e'' then (newW - w) / 2
      else if str_includes direction CHR ''w'' then - (newW - w) / 2 else 0)"
  define cY where "cY =
     (if str_includes direction CHR ''s'' then (newH - h) / 2
      else if str_includes direction CHR ''n'' then - (newH - h) / 2 else 0)"
  have "handleResizeStart zoom data direction start ev =
          Some \<lparr> ch_x = Some (el_x data + (cX * cos t + cY * (- sin t))),
                 ch_y = Some (el_y data + (cX * sin t + cY * cos t)),
                 ch_width = Some newW, ch_height = Some newH \<rparr>"
    unfolding handleResizeStart_def Let_def cX_def cY_def newW_def newH_def dx_def dy_def
      \<open>t = el_rotation data * pi / 180\<close>
    by (simp only: assms(1,2) prod.case option.case)
  with assms(3) have x': "x' = el_x data + (cX * cos t + cY * (- sin t))"
    and y': "y' = el_y data + (cX * sin t + cY * cos t)"
    and w': "w' = newW" and h': "h' = newH"
    by simp_all
  have sq: "cos t * cos t + sin t * sin t = 1"
    using sin_cos_squared_add2 [of t] by (simp add: power2_eq_square)
  have k: "c * (cos t * cos t) + c * (sin t * sin t) = c" for c :: real
    by (simp only: distrib_left [symmetric] sq mult_1_right)
  have u: "x' * cos t + y' * sin t = el_x data * cos t + el_y data * sin t + cX"
    unfolding x' y' using k [of cX] by (simp add: algebra_simps)
  have v: "y' * cos t - x' * sin t = el_y data * cos t - el_x data * sin t + cY"
    unfolding x' y' using k [of cY] by (simp add: algebra_simps)
  show ?thesis
    unfolding u v w' h' by (simp add: cX_def cY_def field_simps)
qed

text \<open>
  C3. A resize keeps width and height at or above \<^const>\<open>MIN_SIZE_PX\<close> and shifts \<open>(x, y)\<close>
  by half the clamped change (the lemmas above). The side opposite to the dragged handle
  is nevertheless not held in place: \<open>(x, y)\<close> is the top-left corner of the drawn box,
  and the handler shifts it as if it were the centre. Dragging the \<open>w\<close> handle of a
  150 by 75 zone at \<open>(100, 100)\<close>, rotation 0, zoom 1, by 200 to the right clamps the width
  to exactly \<^const>\<open>MIN_SIZE_PX\<close> and moves the east side of the box from 250 to 190.
\<close>

theorem C3_resize_clamp_moves_opposite_side:
  "(let z = \<lparr> el_id = 1, el_type = Zone, el_x = 100, el_y = 100, el_rotation = 0,
               el_color = None, el_label = None, el_width = Some 150, el_height = Some 75 \<rparr>;
        ch = \<lparr> ch_x = Some 160, ch_y = Some 100, ch_width = Some MIN_SIZE_PX, ch_height = Some 75 \<rparr>
    in handleResizeStart 1 z ''w'' (0, 0) (200, 0) = Some ch
       \<and> edgeMid East z = Some (250, 137.5)
       \<and> edgeMid East (spread z ch) = Some (190, 137.5))"
  by (simp add: Let_def handleResizeStart_def str_includes_def MIN_SIZE_PX_def edgeMid_def
        boxSize_def spread_def)

text \<open>
  C4. Dragging the \<open>e\<close> handle of the same zone outward by 20 makes the width 170 and
  shifts \<open>(x, y)\<close> by 10 along the width axis. At rotation 0 the drawn west side moves from
  100 to 110 and the east side from 250 to 280, the centre of the box from 175 to 195. At
  rotation 90 the west side keeps its place along the width axis (62.5) but the whole box
  slides by 10 across it (175 to 185), and the east side goes from 212.5 to 232.5.
\<close>

theorem C4_resize_east_moves_west_side:
  "(let z = \<lparr> el_id = 1, el_type = Zone, el_x = 100, el_y = 100, el_rotation = 0,
               el_color = None, el_label = None, el_width = Some 150, el_height = Some 75 \<rparr>;
        ch = \<lparr> ch_x = Some 110, ch_y = Some 100, ch_width = Some 170, ch_height = Some 75 \<rparr>;
        z90 = z\<lparr> el_rotation := 90 \<rparr>;
        ch90 = \<lparr> ch_x = Some 100, ch_y = Some 110, ch_width = Some 170, ch_height = Some 75 \<rparr>
    in handleResizeStart 1 z ''e'' (0, 0) (20, 0) = Some ch
       \<and> edgeMid West z = Some (100, 137.5)
       \<and> edgeMid West (spread z ch) = Some (110, 137.5)
       \<and> edgeMid East z = Some (250, 137.5)
       \<and> edgeMid East (spread z ch) = Some (280, 137.5)
       \<and> boxCentre z = Some (175, 137.5)
       \<and> boxCentre (spread z ch) = Some (195, 137.5)
       \<and> handleResizeStart 1 z90 ''e'' (0, 0) (0, 20) = Some ch90
       \<and> edgeMid West z90 = Some (175, 62.5)
       \<and> edgeMid West (spread z90 ch90) = Some (185, 62.5)
       \<and> edgeMid East z90 = Some (175, 212.5)
       \<and> edgeMid East (spread z90 ch90) = Some (185, 232.5))"
  by (simp add: Let_def handleResizeStart_def str_includes_def MIN_SIZE_PX_def edgeMid_def
        boxSize_def boxCentre_def spread_def)

subsection \<open>The client name\<close>

lemma form_onSubmit_outcome:
  "form_onSubmit parseDate now court f rs = (Blocked, rs)
   \<or> (\<exists>e. form_onSubmit parseDate now court f rs = (Handled (Rejected e), rs))
   \<or> (\<exists>r. form_onSubmit parseDate now court f rs = (Handled (Saved r), rs @ [r])
          \<and> f_name f \<noteq> [] \<and> res_id r = now \<and> clientName r = f_name f)"
proof (cases "f_name f = [] \<or> f_date f = [] \<or> f_startTime f = []")
  case True
  then show ?thesis by (auto simp: form_onSubmit_def)
next
  case False
  then have eq: "form_onSubmit parseDate now court f rs
                   = (Handled (fst (submitReservation parseDate now court f rs)),
                      snd (submitReservation parseDate now court f rs))"
    by (simp add: form_onSubmit_def Let_def)
  from submitReservation_cases [of parseDate now court f rs] show ?thesis
  proof
    assume "\<exists>e. submitReservation parseDate now court f rs = (Rejected e, rs)"
    then show ?thesis using eq by auto
  next
    assume "\<exists>r. submitReservation parseDate now court f rs = (Saved r, rs @ [r])
          \<and> handleSubmit parseDate now court (filter (\<lambda>r. courtId r = el_id court) rs) f = Saved r"
    then obtain r where r: "submitReservation parseDate now court f rs = (Saved r, rs @ [r])"
      and h: "handleSubmit parseDate now court (filter (\<lambda>r. courtId r = el_id court) rs) f = Saved r"
      by blast
    from handleSubmit_Saved [OF h] r eq False show ?thesis by auto
  qed
qed

lemma form_onSubmit_cases:
  "snd (form_onSubmit parseDate now court f rs) = rs
   \<or> (\<exists>r. snd (form_onSubmit parseDate now court f rs) = rs @ [r]
          \<and> f_name f \<noteq> [] \<and> res_id r = now \<and> clientName r = f_name f)"
  using form_onSubmit_outcome [of parseDate now court f rs] by auto

lemma step_names:
  assumes "\<forall>r\<in>set (reservations s). clientName r \<noteq> []"
  shows "\<forall>r\<in>set (reservations (step parseDate e s)). clientName r \<noteq> []"
proof (cases e)
  case (SubmitForm now court f)
  from form_onSubmit_cases [of parseDate now court f "reservations s"] assms SubmitForm
  show ?thesis by auto
next
  case (DeleteReservation i)
  with assms show ?thesis by (simp add: deleteReservation_def)
qed (use assms in simp_all)

lemma run_names:
  "\<forall>r\<in>set (reservations s). clientName r \<noteq> []
     \<Longrightarrow> \<forall>r\<in>set (reservations (run parseDate es s)). clientName r \<noteq> []"
proof (induction es arbitrary: s)
  case Nil
  then show ?case by simp
next
  case (Cons e es)
  from Cons.IH [OF step_names [OF Cons.prems]] show ?case by simp
qed

text \<open>
  C7. Creating a reservation checks that the client name is not empty. Submitting the
  form with an empty name is refused as a missing required field, before any handler
  runs: nothing is committed and the reservation store stays as it was. Every
  reservation in the store, after any sequence of events from the initial state, has a
  non-empty client name. The check is the \<^verbatim>\<open>required\<close> attribute of the name input;
  \<^verbatim>\<open>handleSubmit\<close> stores the name it is given.
\<close>

theorem C7_name_required_by_form:
  "form_onSubmit parseDate now court (f\<lparr> f_name := [] \<rparr>) rs = (Blocked, rs)
   \<and> reservations (step parseDate (SubmitForm now court (f\<lparr> f_name := [] \<rparr>)) s) = reservations s
   \<and> (\<forall>r\<in>set (reservations (run parseDate es (initial size0))). clientName r \<noteq> [])
   \<and> (handleSubmit parseDate now court existing f = Saved r0 \<longrightarrow> clientName r0 = f_name f)"
  using run_names [of "initial size0" parseDate es] handleSubmit_Saved [of parseDate now court existing f r0]
  by (simp add: form_onSubmit_def initial_def)

theorem C7_name_required_by_form_witness:
  "(let p = (\<lambda>t. if t = ''2024-05-01T10:00'' then Some 1714557600000 else None);
        c = \<lparr> el_id = 7, el_type = Court, el_x = 0, el_y = 0, el_rotation = 0,
               el_color = Some ''#2563EB'', el_label = Some 1, el_width = None, el_height = None \<rparr>;
        f = \<lparr> f_name = ''Ana'', f_date = ''2024-05-01'', f_startTime = ''10:00'',
               f_duration = 90, f_deposit = [] \<rparr>;
        r = \<lparr> res_id = 5, courtId = 7, clientName = ''Ana'', res_start = 1714557600000,
                    res_end = 1714563000000, deposit = ''0'' \<rparr>
    in form_onSubmit p 5 c (f\<lparr> f_name := [] \<rparr>) [r] = (Blocked, [r])
       \<and> reservations (step p (SubmitForm 5 c (f\<lparr> f_name := [] \<rparr>)) (initial (800, 600))) = []
       \<and> map clientName (reservations (run p
              [SubmitForm 4 c (f\<lparr> f_name := [] \<rparr>), SubmitForm 5 c f,
               SubmitForm 6 c (f\<lparr> f_name := [], f_date := ''2024-05-02'' \<rparr>)]
              (initial (800, 600)))) = [''Ana'']
       \<and> handleSubmit p 5 c [] f = Saved r \<and> clientName r = ''Ana'')"
  using C7_name_required_by_form [where parseDate = "(\<lambda>t. if t = ''2024-05-01T10:00'' then Some 1714557600000 else None)"
      and now = 5
      and court = "\<lparr> el_id = 7, el_type = Court, el_x = 0, el_y = 0, el_rotation = 0,
               el_color = Some ''#2563EB'', el_label = Some 1, el_width = None, el_height = None \<rparr>"
      and f = "\<lparr> f_name = ''Ana'', f_date = ''2024-05-01'', f_startTime = ''10:00'',
               f_duration = 90, f_deposit = [] \<rparr>"
      and rs = "[\<lparr> res_id = 5, courtId = 7, clientName = ''Ana'', res_start = 1714557600000,
                    res_end = 1714563000000, deposit = ''0'' \<rparr>]"
      and s = "initial (800, 600)"
      and es = "[SubmitForm 4 \<lparr> el_id = 7, el_type = Court, el_x = 0, el_y = 0, el_rotation = 0,
               el_color = Some ''#2563EB'', el_label = Some 1, el_width = None, el_height = None \<rparr>
          \<lparr> f_name = [], f_date = ''2024-05-01'', f_startTime = ''10:00'',
               f_duration = 90, f_deposit = [] \<rparr>,
        SubmitForm 5 \<lparr> el_id = 7, el_type = Court, el_x = 0, el_y = 0, el_rotation = 0,
               el_color = Some ''#2563EB'', el_label = Some 1, el_width = None, el_height = None \<rparr>
          \<lparr> f_name = ''Ana'', f_date = ''2024-05-01'', f_startTime = ''10:00'',
               f_duration = 90, f_deposit = [] \<rparr>,
        SubmitForm 6 \<lparr> el_id = 7, el_type = Court, el_x = 0, el_y = 0, el_rotation = 0,
               el_color = Some ''#2563EB'', el_label = Some 1, el_width = None, el_height = None \<rparr>
          \<lparr> f_name = [], f_date = ''2024-05-02'', f_startTime = ''10:00'',
               f_duration = 90, f_deposit = [] \<rparr>]"
      and ?size0.0 = "(800, 600)" and existing = "[]"
      and ?r0.0 = "\<lparr> res_id = 5, courtId = 7, clientName = ''Ana'', res_start = 1714557600000,
                    res_end = 1714563000000, deposit = ''0'' \<rparr>"]
  by (simp add: Let_def initial_def form_onSubmit_def submitReservation_def handleSubmit_def
        hasOverlap_def handleSaveReservation_def)

subsection \<open>Court labels\<close>

lemma labels_updateElement: "map el_label (updateElement i ch els) = map el_label els"
  by (induction els) (simp_all add: updateElement_def spread_def)

lemma labels_rotateElement: "map el_label (rotateElement i els) = map el_label els"
  by (induction els) (simp_all add: rotateElement_def)

text \<open>
  C8. A new court is appended with the label "number of courts now in the list, plus
  one"; creating a zone, updating, rotating and deleting leave the labels of the
  elements that stay as they are. Three courts created in sequence get the labels 1, 2,
  3; after deleting court 2, the next court gets the label 3, which the third court
  still carries.
\<close>

theorem C8_labels_count_plus_one:
  "map el_label (addCourt size0 now rnd color els)
      = map el_label els @ [Some (length (filter (\<lambda>e. el_type e = Court) els) + 1)]
   \<and> map el_label (addZone size0 now els) = map el_label els @ [None]
   \<and> map el_label (updateElement i ch els) = map el_label els
   \<and> map el_label (rotateElement i els) = map el_label els
   \<and> deleteElement i els = filter (\<lambda>el. el_id el \<noteq> i) els
   \<and> map el_label (elements (run p
      [AddCourt 1 (1/2, 1/2) ''#2563EB'', AddCourt 2 (1/2, 1/2) ''#2563EB'',
       AddCourt 3 (1/2, 1/2) ''#10B981''] (initial (800, 600)))) = [Some 1, Some 2, Some 3]
   \<and> map (\<lambda>el. (el_id el, el_label el)) (elements (run p
      [AddCourt 1 (1/2, 1/2) ''#2563EB'', AddCourt 2 (1/2, 1/2) ''#2563EB'',
       AddCourt 3 (1/2, 1/2) ''#10B981'', DeleteElement 2,
       AddCourt 4 (1/2, 1/2) ''#2563EB''] (initial (800, 600)))) = [(1, Some 1), (3, Some 3), (4, Some 3)]"
  by (simp add: labels_updateElement labels_rotateElement initial_def addCourt_def addZone_def
        deleteElement_def Let_def)

text \<open>The label of the court created after the deletion is 3, not 4.\<close>

theorem C8_counterexample:
  "el_label (last (elements (run (\<lambda>t. None)
      [AddCourt 1 (1/2, 1/2) ''#2563EB'', AddCourt 2 (1/2, 1/2) ''#2563EB'',
       AddCourt 3 (1/2, 1/2) ''#10B981'', DeleteElement 2,
       AddCourt 4 (1/2, 1/2) ''#2563EB''] (initial (800, 600))))) = Some 3
   \<and> el_label (last (elements (run (\<lambda>t. None)
      [AddCourt 1 (1/2, 1/2) ''#2563EB'', AddCourt 2 (1/2, 1/2) ''#2563EB'',
       AddCourt 3 (1/2, 1/2) ''#10B981'', DeleteElement 2,
       AddCourt 4 (1/2, 1/2) ''#2563EB''] (initial (800, 600))))) \<noteq> Some 4"
  by (simp add: initial_def addCourt_def deleteElement_def Let_def)

subsection \<open>Identifiers\<close>

lemma el_ids_addCourt: "map el_id (addCourt sz now rnd col els) = map el_id els @ [now]"
  by (simp add: addCourt_def Let_def)

lemma el_ids_addZone: "map el_id (addZone sz now els) = map el_id els @ [now]"
  by (simp add: addZone_def Let_def)

lemma el_ids_updateElement: "map el_id (updateElement i ch els) = map el_id els"
  by (induction els) (simp_all add: updateElement_def spread_def)

lemma el_ids_rotateElement: "map el_id (rotateElement i els) = map el_id els"
  by (induction els) (simp_all add: rotateElement_def)

lemma el_ids_deleteElement: "map el_id (deleteElement i els) = filter (\<lambda>j. j \<noteq> i) (map el_id els)"
  by (induction els) (simp_all add: deleteElement_def)

lemma step_element_ids:
  assumes "distinct (map el_id (elements s))"
    and "distinct (element_stamps (e # es))"
    and "set (map el_id (elements s)) \<inter> set (element_stamps (e # es)) = {}"
  shows "distinct (map el_id (elements (step parseDate e s)))
       \<and> distinct (element_stamps es)
       \<and> set (map el_id (elements (step parseDate e s))) \<inter> set (element_stamps es) = {}"
proof (cases e)
  case (AddCourt now rnd col)
  with assms show ?thesis by (auto simp: el_ids_addCourt)
next
  case (AddZone now)
  with assms show ?thesis by (auto simp: el_ids_addZone)
next
  case (UpdateElement i ch)
  with assms show ?thesis by (simp add: el_ids_updateElement)
next
  case (RotateElement i)
  with assms show ?thesis by (simp add: el_ids_rotateElement)
next
  case (DeleteElement i)
  with assms show ?thesis by (auto simp: el_ids_deleteElement)
next
  case ClearElements
  with assms show ?thesis by simp
next
  case (SubmitForm now court f)
  with assms show ?thesis by simp
next
  case (DeleteReservation i)
  with assms show ?thesis by simp
qed

lemma run_element_ids:
  "distinct (map el_id (elements s)) \<Longrightarrow> distinct (element_stamps es)
     \<Longrightarrow> set (map el_id (elements s)) \<inter> set (element_stamps es) = {}
     \<Longrightarrow> distinct (map el_id (elements (run parseDate es s)))"
proof (induction es arbitrary: s)
  case Nil
  then show ?case by simp
next
  case (Cons e es)
  from step_element_ids [OF Cons.prems] Cons.IH [of "step parseDate e s"]
  show ?case by simp
qed

lemma res_ids_deleteReservation:
  "map res_id (deleteReservation i rs) = filter (\<lambda>j. j \<noteq> i) (map res_id rs)"
  by (induction rs) (simp_all add: deleteReservation_def)

lemma step_reservation_ids:
  assumes "distinct (map res_id (reservations s))"
    and "distinct (reservation_stamps parseDate (e # es) s)"
    and "set (map res_id (reservations s)) \<inter> set (reservation_stamps parseDate (e # es) s) = {}"
  shows "distinct (map res_id (reservations (step parseDate e s)))
       \<and> distinct (reservation_stamps parseDate es (step parseDate e s))
       \<and> set (map res_id (reservations (step parseDate e s)))
            \<inter> set (reservation_stamps parseDate es (step parseDate e s)) = {}"
proof (cases e)
  case (SubmitForm now court f)
  let ?s' = "step parseDate (SubmitForm now court f) s"
  let ?ids = "map res_id (reservations s)"
  let ?st = "reservation_stamps parseDate es ?s'"
  from form_onSubmit_outcome [of parseDate now court f "reservations s"]
  consider (kept) "snd (form_onSubmit parseDate now court f (reservations s)) = reservations s"
      "reservation_stamps parseDate (e # es) s = ?st"
    | (saved) r where
      "snd (form_onSubmit parseDate now court f (reservations s)) = reservations s @ [r]"
      "res_id r = now" "reservation_stamps parseDate (e # es) s = now # ?st"
    unfolding SubmitForm by (auto simp: reservation_stamps.simps)
  then show ?thesis
  proof cases
    case kept
    have "map res_id (reservations ?s') = ?ids"
      using kept(1) by simp
    with assms kept(2) show ?thesis
      unfolding SubmitForm by simp
  next
    case saved
    have ids': "map res_id (reservations ?s') = ?ids @ [now]"
      using saved(1,2) by simp
    from assms(2,3) saved(3)
    have "now \<notin> set ?st" "distinct ?st" "now \<notin> set ?ids" "set ?ids \<inter> set ?st = {}"
      by auto
    with assms(1) have "distinct (?ids @ [now]) \<and> set (?ids @ [now]) \<inter> set ?st = {}"
      by auto
    with \<open>distinct ?st\<close> show ?thesis
      unfolding SubmitForm ids' by simp
  qed
next
  case (DeleteReservation i)
  with assms show ?thesis by (auto simp: res_ids_deleteReservation)
qed (use assms in simp_all)

lemma run_reservation_ids:
  "distinct (map res_id (reservations s)) \<Longrightarrow> distinct (reservation_stamps parseDate es s)
     \<Longrightarrow> set (map res_id (reservations s)) \<inter> set (reservation_stamps parseDate es s) = {}
     \<Longrightarrow> distinct (map res_id (reservations (run parseDate es s)))"
proof (induction es arbitrary: s)
  case Nil
  then show ?case by simp
next
  case (Cons e es)
  from step_reservation_ids [OF Cons.prems] Cons.IH [of "step parseDate e s"]
  show ?case by simp
qed

text \<open>
  C9. An element's id and a reservation's id are the clock value read at creation, so
  two creations that read the same value get the same id. For every sequence of events
  from the initial state: if the element creations read pairwise distinct clock values,
  the ids of the elements in the layout are pairwise distinct; and if the submissions
  that save a reservation read pairwise distinct clock values, the ids of the stored
  reservations are pairwise distinct. Updating, rotating and deleting change no id.
\<close>

theorem C9_ids_distinct_for_distinct_stamps:
  "(distinct (element_stamps es)
      \<longrightarrow> distinct (map el_id (elements (run parseDate es (initial size0)))))
   \<and> (distinct (reservation_stamps parseDate es (initial size0))
      \<longrightarrow> distinct (map res_id (reservations (run parseDate es (initial size0)))))
   \<and> map el_id (addCourt size0 now rnd color els) = map el_id els @ [now]
   \<and> map el_id (addZone size0 now els) = map el_id els @ [now]
   \<and> (handleSubmit parseDate now court existing f = Saved r \<longrightarrow> res_id r = now)"
  using run_element_ids [of "initial size0" es parseDate]
    run_reservation_ids [of "initial size0" parseDate es]
    handleSubmit_Saved [of parseDate now court existing f r]
  by (simp add: initial_def el_ids_addCourt el_ids_addZone)

theorem C9_ids_distinct_for_distinct_stamps_witness:
  "(let p = (\<lambda>t. if t = ''2024-05-01T10:00'' then Some 1714557600000
           else if t = ''2024-05-01T12:00'' then Some 1714564800000 else None);
        es = [AddCourt 7 (1/2, 1/2) ''#2563EB'', AddZone 8, AddCourt 9 (1/2, 1/2) ''#10B981'',
         SubmitForm 10 \<lparr> el_id = 7, el_type = Court, el_x = 0, el_y = 0, el_rotation = 0,
               el_color = Some ''#2563EB'', el_label = Some 1, el_width = None, el_height = None \<rparr>
           \<lparr> f_name = ''Ana'', f_date = ''2024-05-01'', f_startTime = ''10:00'',
               f_duration = 90, f_deposit = [] \<rparr>,
         SubmitForm 11 \<lparr> el_id = 7, el_type = Court, el_x = 0, el_y = 0, el_rotation = 0,
               el_color = Some ''#2563EB'', el_label = Some 1, el_width = None, el_height = None \<rparr>
           \<lparr> f_name = ''Ana'', f_date = ''2024-05-01'', f_startTime = ''10:00'',
               f_duration = 90, f_deposit = [] \<rparr>,
         SubmitForm 11 \<lparr> el_id = 7, el_type = Court, el_x = 0, el_y = 0, el_rotation = 0,
               el_color = Some ''#2563EB'', el_label = Some 1, el_width = None, el_height = None \<rparr>
           \<lparr> f_name = ''Luis'', f_date = ''2024-05-01'', f_startTime = ''12:00'',
               f_duration = 90, f_deposit = [] \<rparr>,
         DeleteElement 8]
    in element_stamps es = [7, 8, 9] \<and> distinct (element_stamps es)
       \<and> reservation_stamps p es (initial (800, 600)) = [10, 11]
       \<and> distinct (reservation_stamps p es (initial (800, 600)))
       \<and> map el_id (elements (run p es (initial (800, 600)))) = [7, 9]
       \<and> distinct (map el_id (elements (run p es (initial (800, 600)))))
       \<and> map res_id (reservations (run p es (initial (800, 600)))) = [10, 11]
       \<and> distinct (map res_id (reservations (run p es (initial (800, 600))))))"
  using C9_ids_distinct_for_distinct_stamps [where parseDate = "(\<lambda>t. if t = ''2024-05-01T10:00'' then Some 1714557600000
           else if t = ''2024-05-01T12:00'' then Some 1714564800000 else None)"
      and es = "[AddCourt 7 (1/2, 1/2) ''#2563EB'', AddZone 8, AddCourt 9 (1/2, 1/2) ''#10B981'',
         SubmitForm 10 \<lparr> el_id = 7, el_type = Court, el_x = 0, el_y = 0, el_rotation = 0,
               el_color = Some ''#2563EB'', el_label = Some 1, el_width = None, el_height = None \<rparr>
           \<lparr> f_name = ''Ana'', f_date = ''2024-05-01'', f_startTime = ''10:00'',
               f_duration = 90, f_deposit = [] \<rparr>,
         SubmitForm 11 \<lparr> el_id = 7, el_type = Court, el_x = 0, el_y = 0, el_rotation = 0,
               el_color = Some ''#2563EB'', el_label = Some 1, el_width = None, el_height = None \<rparr>
           \<lparr> f_name = ''Ana'', f_date = ''2024-05-01'', f_startTime = ''10:00'',
               f_duration = 90, f_deposit = [] \<rparr>,
         SubmitForm 11 \<lparr> el_id = 7, el_type = Court, el_x = 0, el_y = 0, el_rotation = 0,
               el_color = Some ''#2563EB'', el_label = Some 1, el_width = None, el_height = None \<rparr>
           \<lparr> f_name = ''Luis'', f_date = ''2024-05-01'', f_startTime = ''12:00'',
               f_duration = 90, f_deposit = [] \<rparr>,
         DeleteElement 8]"
      and ?size0.0 = "(800, 600)"]
  by (simp add: Let_def initial_def addCourt_def addZone_def deleteElement_def form_onSubmit_def
        submitReservation_def handleSubmit_def hasOverlap_def handleSaveReservation_def)

text \<open>
  Two creations that read the same clock value get the same id: a court and a zone
  created at 7, and two reservations (on different courts) saved at 9.
\<close>

theorem C9_counterexample:
  "(let p = (\<lambda>t. if t = ''2024-05-01T10:00'' then Some 1714557600000 else None);
        c1 = \<lparr> el_id = 7, el_type = Court, el_x = 0, el_y = 0, el_rotation = 0,
               el_color = Some ''#2563EB'', el_label = Some 1, el_width = None, el_height = None \<rparr>;
        c2 = c1\<lparr> el_id := 8, el_label := Some 2 \<rparr>;
        f = \<lparr> f_name = ''Ana'', f_date = ''2024-05-01'', f_startTime = ''10:00'',
               f_duration = 90, f_deposit = [] \<rparr>
    in map el_id (elements (run p [AddCourt 7 (1/2, 1/2) ''#2563EB'', AddZone 7] (initial (800, 600))))
         = [7, 7]
       \<and> map res_id (reservations (run p [SubmitForm 9 c1 f, SubmitForm 9 c2 f] (initial (800, 600))))
         = [9, 9]
       \<and> reservation_stamps p [SubmitForm 9 c1 f, SubmitForm 9 c2 f] (initial (800, 600)) = [9, 9])"
  by (simp add: Let_def initial_def addCourt_def addZone_def form_onSubmit_def submitReservation_def
        handleSubmit_def hasOverlap_def handleSaveReservation_def)

subsection \<open>The deposit\<close>

text \<open>
  C10. A reservation that is committed is appended to the store with the deposit text
  of the form, except that a blank field is stored as the text 0, whose value is zero.
  The sign of the deposit is not checked.
\<close>

theorem C10_deposit_as_entered:
  assumes "submitReservation parseDate now court f rs = (Saved r, rs')"
  shows "rs' = rs @ [r]
       \<and> deposit r = (if f_deposit f = [] then ''0'' else f_deposit f)
       \<and> (f_deposit f = [] \<longrightarrow> Number_of (deposit r) = Some 0)"
proof -
  from submitReservation_cases [of parseDate now court f rs] assms
  have rs': "rs' = rs @ [r]"
    and h: "handleSubmit parseDate now court (filter (\<lambda>r. courtId r = el_id court) rs) f = Saved r"
    by auto
  from handleSubmit_Saved [OF h] rs' show ?thesis
    by (simp add: Number_of_def digit_def)
qed

theorem C10_deposit_as_entered_witness:
  "(let p = (\<lambda>t. if t = ''2024-05-01T10:00'' then Some 1714557600000 else None);
        c = \<lparr> el_id = 7, el_type = Court, el_x = 0, el_y = 0, el_rotation = 0,
               el_color = Some ''#2563EB'', el_label = Some 1, el_width = None, el_height = None \<rparr>;
        f = \<lparr> f_name = ''Ana'', f_date = ''2024-05-01'', f_startTime = ''10:00'',
               f_duration = 90, f_deposit = [] \<rparr>;
        r = \<lparr> res_id = 5, courtId = 7, clientName = ''Ana'', res_start = 1714557600000,
                    res_end = 1714563000000, deposit = ''0'' \<rparr>
    in submitReservation p 5 c f [] = (Saved r, [r])
       \<and> deposit r = ''0'' \<and> Number_of (deposit r) = Some 0)"
  using C10_deposit_as_entered [of "(\<lambda>t. if t = ''2024-05-01T10:00'' then Some 1714557600000 else None)" 5
      "\<lparr> el_id = 7, el_type = Court, el_x = 0, el_y = 0, el_rotation = 0,
               el_color = Some ''#2563EB'', el_label = Some 1, el_width = None, el_height = None \<rparr>"
      "\<lparr> f_name = ''Ana'', f_date = ''2024-05-01'', f_startTime = ''10:00'',
               f_duration = 90, f_deposit = [] \<rparr>" "[]"
      "\<lparr> res_id = 5, courtId = 7, clientName = ''Ana'', res_start = 1714557600000,
                    res_end = 1714563000000, deposit = ''0'' \<rparr>"
      "[\<lparr> res_id = 5, courtId = 7, clientName = ''Ana'', res_start = 1714557600000,
                    res_end = 1714563000000, deposit = ''0'' \<rparr>]"]
  by (simp add: Let_def submitReservation_def handleSubmit_def hasOverlap_def
        handleSaveReservation_def)

text \<open>A deposit of -5 typed into the number field is committed as it is.\<close>

theorem C10_counterexample:
  "(let p = (\<lambda>t. if t = ''2024-05-01T10:00'' then Some 1714557600000 else None);
        c = \<lparr> el_id = 7, el_type = Court, el_x = 0, el_y = 0, el_rotation = 0,
               el_color = Some ''#2563EB'', el_label = Some 1, el_width = None, el_height = None \<rparr>;
        f = \<lparr> f_name = ''Ana'', f_date = ''2024-05-01'', f_startTime = ''10:00'',
               f_duration = 90, f_deposit = ''-5'' \<rparr>;
        r = \<lparr> res_id = 5, courtId = 7, clientName = ''Ana'', res_start = 1714557600000,
                    res_end = 1714563000000, deposit = ''-5'' \<rparr>
    in submitReservation p 5 c f [] = (Saved r, [r])
       \<and> Number_of (deposit r) = Some (- 5) \<and> (- 5 :: int) < 0)"
  by (simp add: Let_def submitReservation_def handleSubmit_def hasOverlap_def
        handleSaveReservation_def Number_of_def digit_def)

end
